theory Spec2Isabelle
  imports Main
begin

section \<open>Python values\<close>

text \<open>
  The values that flow through \<^verbatim>\<open>conditions.py\<close>: operands, target instances and
  validity states. An object carries the name of its class and its attribute table.
\<close>

datatype pyval =
    PNone
  | PBool bool
  | PInt int
  | PStr string
  | PObj string "(string \<times> pyval) list"

text \<open>Exceptions the module's code can raise; the string is Python's message.\<close>

datatype py_error =
    TypeError string
  | KeyError string

text \<open>
  Attribute lookup of the Python runtime, \<^verbatim>\<open>getattr(obj, name)\<close>: \<open>None\<close> stands for
  \<^verbatim>\<open>AttributeError\<close>. It is a parameter of every operation that looks an attribute up,
  so that nothing is assumed about the attributes of built-in values.
\<close>

type_synonym getattr_fn = "pyval \<Rightarrow> string \<Rightarrow> pyval option"

text \<open>The lookup for objects that have exactly the attributes of their table.\<close>

fun table_getattr :: getattr_fn where
  "table_getattr (PObj cls tbl) name = map_of tbl name"
| "table_getattr v name = None"

text \<open>\<^verbatim>\<open>hasattr(obj, name)\<close>: the lookup does not raise \<^verbatim>\<open>AttributeError\<close>.\<close>

definition hasattr :: "getattr_fn \<Rightarrow> pyval \<Rightarrow> string \<Rightarrow> bool" where
  "hasattr ga obj name = (ga obj name \<noteq> None)"

text \<open>\<^verbatim>\<open>obj.__class__.__name__\<close>\<close>

fun class_name :: "pyval \<Rightarrow> string" where
  "class_name PNone = ''NoneType''"
| "class_name (PBool b) = ''bool''"
| "class_name (PInt i) = ''int''"
| "class_name (PStr s) = ''str''"
| "class_name (PObj cls tbl) = cls"

text \<open>Truth value of a Python value, as \<^verbatim>\<open>all\<close> and \<^verbatim>\<open>any\<close> test it.\<close>

fun truthy :: "pyval \<Rightarrow> bool" where
  "truthy PNone = False"
| "truthy (PBool b) = b"
| "truthy (PInt i) = (i \<noteq> 0)"
| "truthy (PStr s) = (s \<noteq> [])"
| "truthy (PObj cls tbl) = True"

section \<open>The predicate library\<close>

text \<open>
  The functions that \<^verbatim>\<open>Condition\<close> stores in \<^verbatim>\<open>_eval_function\<close>, imported from
  \<^verbatim>\<open>ml_studio.services.validation.utils\<close>.
\<close>

datatype eval_function =
    utils_is_none
  | utils_is_not_none
  | utils_is_empty
  | utils_is_not_empty
  | utils_is_bool
  | utils_is_integer
  | utils_is_number
  | utils_is_string
  | utils_is_equal
  | utils_is_not_equal
  | utils_is_less
  | utils_is_less_equal
  | utils_is_greater
  | utils_is_greater_equal
  | utils_is_match

text \<open>
  A library interprets each function on the list of positional arguments of a call; it
  returns a boolean or raises. The operations below take the library as a parameter.
\<close>

type_synonym library = "eval_function \<Rightarrow> pyval list \<Rightarrow> py_error + bool"

fun function_name :: "eval_function \<Rightarrow> string" where
  "function_name utils_is_none = ''is_none''"
| "function_name utils_is_not_none = ''is_not_none''"
| "function_name utils_is_empty = ''is_empty''"
| "function_name utils_is_not_empty = ''is_not_empty''"
| "function_name utils_is_bool = ''is_bool''"
| "function_name utils_is_integer = ''is_integer''"
| "function_name utils_is_number = ''is_number''"
| "function_name utils_is_string = ''is_string''"
| "function_name utils_is_equal = ''is_equal''"
| "function_name utils_is_not_equal = ''is_not_equal''"
| "function_name utils_is_less = ''is_less''"
| "function_name utils_is_less_equal = ''is_less_equal''"
| "function_name utils_is_greater = ''is_greater''"
| "function_name utils_is_greater_equal = ''is_greater_equal''"
| "function_name utils_is_match = ''is_match''"

text \<open>
  Modelled from the spec: the module \<^verbatim>\<open>ml_studio/services/validation/utils.py\<close> is
  missing from the sources. The spec gives its predicates the signatures
  \<^verbatim>\<open>unaryPredicate(a) -> bool\<close> and \<^verbatim>\<open>binaryPredicate(a, b) -> bool\<close> and names them
  none, not-none, empty, not-empty, bool, integer, number, string-typed, equal, not-equal,
  less, less-or-equal, greater, greater-or-equal and pattern-match.
  \<open>unary_predicate\<close> and \<open>binary_predicate\<close> give each name its meaning on the values of
  \<open>pyval\<close>; an order comparison of operands that are not both integers raises Python's
  \<^verbatim>\<open>TypeError\<close>, and the pattern matcher (Python's \<^verbatim>\<open>re\<close>) is the parameter \<open>re_match\<close>.
\<close>

fun unary_predicate :: "eval_function \<Rightarrow> pyval \<Rightarrow> bool" where
  "unary_predicate utils_is_none v = (v = PNone)"
| "unary_predicate utils_is_not_none v = (v \<noteq> PNone)"
| "unary_predicate utils_is_empty v = (v = PStr [])"
| "unary_predicate utils_is_not_empty v = (v \<noteq> PStr [])"
| "unary_predicate utils_is_bool v = (case v of PBool b \<Rightarrow> True | _ \<Rightarrow> False)"
| "unary_predicate utils_is_integer v = (case v of PInt i \<Rightarrow> True | _ \<Rightarrow> False)"
| "unary_predicate utils_is_number v = (case v of PInt i \<Rightarrow> True | _ \<Rightarrow> False)"
| "unary_predicate utils_is_string v = (case v of PStr s \<Rightarrow> True | _ \<Rightarrow> False)"
| "unary_predicate f v = False"

definition quoted :: "string \<Rightarrow> string" where
  "quoted s = CHR 0x27 # s @ [CHR 0x27]"

definition not_supported :: "string \<Rightarrow> pyval \<Rightarrow> pyval \<Rightarrow> py_error" where
  "not_supported opr x y =
     TypeError (quoted opr @ '' not supported between instances of ''
                @ quoted (class_name x) @ '' and '' @ quoted (class_name y))"

fun compare_ints :: "string \<Rightarrow> (int \<Rightarrow> int \<Rightarrow> bool) \<Rightarrow> pyval \<Rightarrow> pyval \<Rightarrow> py_error + bool" where
  "compare_ints opr rel (PInt x) (PInt y) = Inr (rel x y)"
| "compare_ints opr rel x y = Inl (not_supported opr x y)"

fun binary_predicate ::
  "(string \<Rightarrow> string \<Rightarrow> bool) \<Rightarrow> eval_function \<Rightarrow> pyval \<Rightarrow> pyval \<Rightarrow> py_error + bool" where
  "binary_predicate re_match utils_is_equal x y = Inr (x = y)"
| "binary_predicate re_match utils_is_not_equal x y = Inr (x \<noteq> y)"
| "binary_predicate re_match utils_is_less x y = compare_ints ''<'' (<) x y"
| "binary_predicate re_match utils_is_less_equal x y = compare_ints ''<='' (\<le>) x y"
| "binary_predicate re_match utils_is_greater x y = compare_ints ''>'' (>) x y"
| "binary_predicate re_match utils_is_greater_equal x y = compare_ints ''>='' (\<ge>) x y"
| "binary_predicate re_match utils_is_match (PStr s) (PStr p) = Inr (re_match p s)"
| "binary_predicate re_match f x y =
     Inl (TypeError ''expected string or bytes-like object'')"

definition is_unary :: "eval_function \<Rightarrow> bool" where
  "is_unary f = (f \<in> set [utils_is_none, utils_is_not_none, utils_is_empty,
     utils_is_not_empty, utils_is_bool, utils_is_integer, utils_is_number, utils_is_string])"

text \<open>
  Modelled from the spec: the library with the two signatures of the spec. A call with a
  number of arguments other than the signature's raises Python's \<^verbatim>\<open>TypeError\<close>.
\<close>

fun utils :: "(string \<Rightarrow> string \<Rightarrow> bool) \<Rightarrow> library" where
  "utils re_match f [x] =
     (if is_unary f then Inr (unary_predicate f x)
      else Inl (TypeError (function_name f
                  @ ''() missing 1 required positional argument: '' @ quoted ''b'')))"
| "utils re_match f [x, y] =
     (if is_unary f
      then Inl (TypeError (function_name f @ ''() takes 1 positional argument but 2 were given''))
      else binary_predicate re_match f x y)"
| "utils re_match f args =
     Inl (TypeError (function_name f @ ''() called with a wrong number of arguments''))"

section \<open>The nodes\<close>

text \<open>
  The instance variables of \<^verbatim>\<open>BaseCondition.__init__\<close>, without the leading
  underscore (\<open>id'\<close> for \<^verbatim>\<open>_id\<close>, and below \<open>a'\<close>, \<open>b'\<close> for \<^verbatim>\<open>_a\<close>, \<^verbatim>\<open>_b\<close>). The identifier, a fresh UUID in the source, is an argument
  of the constructors here; the creation time and the creator are never read.
\<close>

record base_condition =
  id' :: string
  is_valid :: pyval
  evaluated_instance :: pyval
  evaluated_attribute :: "string option"

text \<open>\<^verbatim>\<open>Condition\<close> adds the operands \<^verbatim>\<open>_a\<close>, \<^verbatim>\<open>_b\<close> and the selected predicate.\<close>

record condition = base_condition +
  a' :: pyval
  b' :: pyval
  a_attribute :: pyval
  b_attribute :: pyval
  eval_function :: "eval_function option"

text \<open>\<^verbatim>\<open>ConditionSet\<close> adds the combinator; its ordered dictionary is part of the node.\<close>

record condition_set = base_condition +
  logical :: string

text \<open>
  A node is a \<^verbatim>\<open>Condition\<close> or a \<^verbatim>\<open>ConditionSet\<close> with its \<^verbatim>\<open>OrderedDict\<close> of children,
  an association list in insertion order. Nodes are values: a child belongs to one parent.
\<close>

datatype node =
    Condition condition
  | ConditionSet condition_set "(string \<times> node) list"

fun node_id :: "node \<Rightarrow> string" where
  "node_id (Condition c) = id' c"
| "node_id (ConditionSet s cs) = id' s"

fun node_is_valid :: "node \<Rightarrow> pyval" where
  "node_is_valid (Condition c) = is_valid c"
| "node_is_valid (ConditionSet s cs) = is_valid s"

fun node_evaluated_instance :: "node \<Rightarrow> pyval" where
  "node_evaluated_instance (Condition c) = evaluated_instance c"
| "node_evaluated_instance (ConditionSet s cs) = evaluated_instance s"

fun node_evaluated_attribute :: "node \<Rightarrow> string option" where
  "node_evaluated_attribute (Condition c) = evaluated_attribute c"
| "node_evaluated_attribute (ConditionSet s cs) = evaluated_attribute s"

fun conditions :: "node \<Rightarrow> (string \<times> node) list" where
  "conditions (Condition c) = []"
| "conditions (ConditionSet s cs) = cs"

subsection \<open>Constructors\<close>

definition Condition_init :: "string \<Rightarrow> condition" where
  "Condition_init i =
     \<lparr>id' = i, is_valid = PStr ''Not evaluated.'', evaluated_instance = PNone,
      evaluated_attribute = None, a' = PNone, b' = PNone, a_attribute = PNone,
      b_attribute = PNone, eval_function = None\<rparr>"

definition ConditionSet_init :: "string \<Rightarrow> node" where
  "ConditionSet_init i =
     ConditionSet \<lparr>id' = i, is_valid = PBool True, evaluated_instance = PNone,
                   evaluated_attribute = None, logical = ''all''\<rparr> []"

subsection \<open>The ordered dictionary\<close>

text \<open>\<^verbatim>\<open>d[k] = v\<close>: an existing key keeps its position, a new key goes to the end.\<close>

fun od_setitem :: "string \<Rightarrow> 'v \<Rightarrow> (string \<times> 'v) list \<Rightarrow> (string \<times> 'v) list" where
  "od_setitem k v [] = [(k, v)]"
| "od_setitem k v ((k', v') # d) =
     (if k' = k then (k, v) # d else (k', v') # od_setitem k v d)"

text \<open>\<^verbatim>\<open>del d[k]\<close> and \<^verbatim>\<open>d[k]\<close> raise \<^verbatim>\<open>KeyError\<close> on a key that is absent.\<close>

fun od_delitem :: "string \<Rightarrow> (string \<times> 'v) list \<Rightarrow> py_error + (string \<times> 'v) list" where
  "od_delitem k [] = Inl (KeyError k)"
| "od_delitem k ((k', v') # d) =
     (if k' = k then Inr d
      else (case od_delitem k d of Inl e \<Rightarrow> Inl e | Inr d' \<Rightarrow> Inr ((k', v') # d')))"

definition od_getitem :: "string \<Rightarrow> (string \<times> 'v) list \<Rightarrow> py_error + 'v" where
  "od_getitem k d = (case map_of d k of None \<Rightarrow> Inl (KeyError k) | Some v \<Rightarrow> Inr v)"

subsection \<open>Composite management of \<^verbatim>\<open>ConditionSet\<close>\<close>

text \<open>On a \<^verbatim>\<open>Condition\<close> these are the methods of \<^verbatim>\<open>BaseCondition\<close>, which do nothing.\<close>

fun add_condition :: "node \<Rightarrow> node \<Rightarrow> node" where
  "add_condition child (ConditionSet s cs) = ConditionSet s (od_setitem (node_id child) child cs)"
| "add_condition child (Condition c) = Condition c"

fun remove_condition :: "node \<Rightarrow> node \<Rightarrow> py_error + node" where
  "remove_condition child (ConditionSet s cs) =
     (case od_delitem (node_id child) cs of Inl e \<Rightarrow> Inl e | Inr cs' \<Rightarrow> Inr (ConditionSet s cs'))"
| "remove_condition child (Condition c) = Inr (Condition c)"

fun get_condition :: "node \<Rightarrow> node \<Rightarrow> py_error + node" where
  "get_condition child (ConditionSet s cs) = od_getitem (node_id child) cs"
| "get_condition child (Condition c) = Inr (Condition c)"

fun reset :: "node \<Rightarrow> node" where
  "reset (ConditionSet s cs) = ConditionSet s []"
| "reset (Condition c) = Condition c"

fun when_all_conditions_are_true :: "node \<Rightarrow> node" where
  "when_all_conditions_are_true (ConditionSet s cs) = ConditionSet (s\<lparr>logical := ''all''\<rparr>) cs"
| "when_all_conditions_are_true (Condition c) = Condition c"

fun when_any_condition_is_true :: "node \<Rightarrow> node" where
  "when_any_condition_is_true (ConditionSet s cs) = ConditionSet (s\<lparr>logical := ''any''\<rparr>) cs"
| "when_any_condition_is_true (Condition c) = Condition c"

fun when_no_conditions_are_true :: "node \<Rightarrow> node" where
  "when_no_conditions_are_true (ConditionSet s cs) = ConditionSet (s\<lparr>logical := ''none''\<rparr>) cs"
| "when_no_conditions_are_true (Condition c) = Condition c"

subsection \<open>Binding the target instance\<close>

text \<open>\<^verbatim>\<open>BaseCondition.on\<close>, inherited by \<^verbatim>\<open>Condition\<close>.\<close>

definition BaseCondition_on :: "pyval \<Rightarrow> 'x base_condition_scheme \<Rightarrow> 'x base_condition_scheme" where
  "BaseCondition_on v r = r\<lparr>evaluated_instance := v\<rparr>"

text \<open>
  \<^verbatim>\<open>ConditionSet.on\<close> assigns the instance and calls \<^verbatim>\<open>on\<close> of every child; \<open>on\<close> is the
  call \<^verbatim>\<open>node.on(value)\<close> dispatched on the class of the node. The \<^verbatim>\<open>else\<close> branch of the
  source is dead: \<^verbatim>\<open>self\<close> is a \<^verbatim>\<open>ConditionSet\<close> there.
\<close>

fun on :: "pyval \<Rightarrow> node \<Rightarrow> node"
  and on_items :: "pyval \<Rightarrow> (string \<times> node) list \<Rightarrow> (string \<times> node) list" where
  "on v (Condition c) = Condition (BaseCondition_on v c)"
| "on v (ConditionSet s cs) = ConditionSet (s\<lparr>evaluated_instance := v\<rparr>) (on_items v cs)"
| "on_items v [] = []"
| "on_items v ((k, n) # cs) = (k, on v n) # on_items v cs"

subsection \<open>Binding the attribute\<close>

text \<open>The line that \<^verbatim>\<open>attribute\<close> prints when the instance has no such attribute.\<close>

definition not_valid_attribute :: "string \<Rightarrow> pyval \<Rightarrow> string" where
  "not_valid_attribute attr inst =
     attr @ '' is not a valid attribute for the '' @ class_name inst @ '' class.''"

text \<open>
  \<^verbatim>\<open>BaseCondition.attribute\<close>, inherited by \<^verbatim>\<open>Condition\<close>: the name is stored only when the
  node's own instance has the attribute. The second component is what was printed.
\<close>

definition BaseCondition_attribute ::
  "getattr_fn \<Rightarrow> string \<Rightarrow> 'x base_condition_scheme \<Rightarrow> 'x base_condition_scheme \<times> string list" where
  "BaseCondition_attribute ga v r =
     (if hasattr ga (evaluated_instance r) v
      then (r\<lparr>evaluated_attribute := Some v\<rparr>, [])
      else (r, [not_valid_attribute v (evaluated_instance r)]))"

text \<open>
  \<^verbatim>\<open>ConditionSet.attribute\<close> does the same on the set and then calls \<^verbatim>\<open>attribute\<close> of
  every child, in order.
\<close>

fun attribute :: "getattr_fn \<Rightarrow> string \<Rightarrow> node \<Rightarrow> node \<times> string list"
  and attribute_items ::
    "getattr_fn \<Rightarrow> string \<Rightarrow> (string \<times> node) list \<Rightarrow> (string \<times> node) list \<times> string list" where
  "attribute ga v (Condition c) =
     (case BaseCondition_attribute ga v c of (c1, out) \<Rightarrow> (Condition c1, out))"
| "attribute ga v (ConditionSet s cs) =
     (case BaseCondition_attribute ga v s of (s1, out) \<Rightarrow>
        (case attribute_items ga v cs of (cs1, out1) \<Rightarrow> (ConditionSet s1 cs1, out @ out1)))"
| "attribute_items ga v [] = ([], [])"
| "attribute_items ga v ((k, n) # cs) =
     (case attribute ga v n of (n1, out) \<Rightarrow>
        (case attribute_items ga v cs of (cs1, out1) \<Rightarrow> ((k, n1) # cs1, out @ out1)))"

subsection \<open>Configuring a \<^verbatim>\<open>Condition\<close>\<close>

definition when' :: "pyval \<Rightarrow> condition \<Rightarrow> condition" where
  "when' v c = c\<lparr>a' := v\<rparr>"

definition is_none :: "condition \<Rightarrow> condition" where
  "is_none c = c\<lparr>eval_function := Some utils_is_none\<rparr>"

definition is_not_none :: "condition \<Rightarrow> condition" where
  "is_not_none c = c\<lparr>eval_function := Some utils_is_not_none\<rparr>"

definition is_empty :: "condition \<Rightarrow> condition" where
  "is_empty c = c\<lparr>eval_function := Some utils_is_empty\<rparr>"

definition is_not_empty :: "condition \<Rightarrow> condition" where
  "is_not_empty c = c\<lparr>eval_function := Some utils_is_not_empty\<rparr>"

definition is_bool :: "condition \<Rightarrow> condition" where
  "is_bool c = c\<lparr>eval_function := Some utils_is_bool\<rparr>"

definition is_integer :: "condition \<Rightarrow> condition" where
  "is_integer c = c\<lparr>eval_function := Some utils_is_integer\<rparr>"

definition is_number :: "condition \<Rightarrow> condition" where
  "is_number c = c\<lparr>eval_function := Some utils_is_number\<rparr>"

definition is_string :: "condition \<Rightarrow> condition" where
  "is_string c = c\<lparr>eval_function := Some utils_is_string\<rparr>"

definition is_equal :: "pyval \<Rightarrow> condition \<Rightarrow> condition" where
  "is_equal v c = c\<lparr>b' := v, eval_function := Some utils_is_equal\<rparr>"

definition is_not_equal :: "pyval \<Rightarrow> condition \<Rightarrow> condition" where
  "is_not_equal v c = c\<lparr>b' := v, eval_function := Some utils_is_not_equal\<rparr>"

definition is_less :: "pyval \<Rightarrow> condition \<Rightarrow> condition" where
  "is_less v c = c\<lparr>b' := v, eval_function := Some utils_is_less\<rparr>"

definition is_less_equal :: "pyval \<Rightarrow> condition \<Rightarrow> condition" where
  "is_less_equal v c = c\<lparr>b' := v, eval_function := Some utils_is_less_equal\<rparr>"

definition is_greater :: "pyval \<Rightarrow> condition \<Rightarrow> condition" where
  "is_greater v c = c\<lparr>b' := v, eval_function := Some utils_is_greater\<rparr>"

definition is_greater_equal :: "pyval \<Rightarrow> condition \<Rightarrow> condition" where
  "is_greater_equal v c = c\<lparr>b' := v, eval_function := Some utils_is_greater_equal\<rparr>"

definition is_match :: "pyval \<Rightarrow> condition \<Rightarrow> condition" where
  "is_match v c = c\<lparr>b' := v, eval_function := Some utils_is_match\<rparr>"

subsection \<open>Evaluation\<close>

text \<open>
  \<^verbatim>\<open>Condition._get_value\<close>: a string operand is looked up on the instance, and is kept
  as it is when the lookup raises \<^verbatim>\<open>AttributeError\<close>; any other operand is kept.
\<close>

definition get_value :: "getattr_fn \<Rightarrow> pyval \<Rightarrow> pyval \<Rightarrow> pyval" where
  "get_value ga inst v =
     (case v of
        PStr name \<Rightarrow> (case ga inst name of Some x \<Rightarrow> x | None \<Rightarrow> PStr name)
      | _ \<Rightarrow> v)"

text \<open>
  The call \<^verbatim>\<open>self._eval_function(self._a, self._b)\<close>: calling \<^verbatim>\<open>None\<close> raises Python's
  \<^verbatim>\<open>TypeError\<close>; a library function receives the two positional arguments.
\<close>

definition not_callable :: py_error where
  "not_callable = TypeError (quoted ''NoneType'' @ '' object is not callable'')"

definition call_eval_function ::
  "library \<Rightarrow> eval_function option \<Rightarrow> pyval \<Rightarrow> pyval \<Rightarrow> py_error + bool" where
  "call_eval_function lib f x y =
     (case f of None \<Rightarrow> Inl not_callable | Some g \<Rightarrow> lib g [x, y])"

text \<open>
  \<^verbatim>\<open>Condition.evaluate\<close>: reset, resolve and store both operands, call the predicate and
  store its result. An exception leaves the call without a result.
\<close>

definition Condition_evaluate :: "library \<Rightarrow> getattr_fn \<Rightarrow> condition \<Rightarrow> py_error + condition" where
  "Condition_evaluate lib ga c =
     (let c1 = c\<lparr>is_valid := PStr ''Not evaluated.''\<rparr>;
          c2 = c1\<lparr>a' := get_value ga (evaluated_instance c1) (a' c1)\<rparr>;
          c3 = c2\<lparr>b' := get_value ga (evaluated_instance c2) (b' c2)\<rparr>
      in case call_eval_function lib (eval_function c3) (a' c3) (b' c3) of
           Inl e \<Rightarrow> Inl e
         | Inr r \<Rightarrow> Inr (c3\<lparr>is_valid := PBool r\<rparr>))"

text \<open>The three aggregations of \<^verbatim>\<open>ConditionSet.evaluate\<close> over the children's states.\<close>

definition aggregate :: "string \<Rightarrow> pyval list \<Rightarrow> bool" where
  "aggregate lg vs =
     (if lg = ''all'' then list_all truthy vs
      else if lg = ''any'' then list_ex truthy vs
      else \<not> list_ex truthy vs)"

text \<open>
  \<^verbatim>\<open>ConditionSet.evaluate\<close>: every child of the dictionary is evaluated and stored again
  under its id with \<^verbatim>\<open>add_condition\<close> (\<open>evaluate_items\<close>, the comprehension of the
  source, with the dictionary as it stands in the last argument); then the states of the
  children are read from the dictionary and aggregated. The exception of a child is not
  caught.
\<close>

fun evaluate :: "library \<Rightarrow> getattr_fn \<Rightarrow> node \<Rightarrow> py_error + node"
  and evaluate_items ::
    "library \<Rightarrow> getattr_fn \<Rightarrow> (string \<times> node) list \<Rightarrow> (string \<times> node) list
       \<Rightarrow> py_error + (string \<times> node) list" where
  "evaluate lib ga (Condition c) =
     (case Condition_evaluate lib ga c of Inl e \<Rightarrow> Inl e | Inr c1 \<Rightarrow> Inr (Condition c1))"
| "evaluate lib ga (ConditionSet s cs) =
     (case evaluate_items lib ga cs cs of
        Inl e \<Rightarrow> Inl e
      | Inr d \<Rightarrow>
          Inr (ConditionSet
                (s\<lparr>is_valid := PBool (aggregate (logical s) (map (\<lambda>(k, n). node_is_valid n) d))\<rparr>)
                d))"
| "evaluate_items lib ga [] d = Inr d"
| "evaluate_items lib ga ((k, n) # items) d =
     (case evaluate lib ga n of
        Inl e \<Rightarrow> Inl e
      | Inr n1 \<Rightarrow> evaluate_items lib ga items (od_setitem (node_id n1) n1 d))"

subsection \<open>Trees and their well-formedness\<close>

text \<open>All nodes below a node, children before their own descendants.\<close>

fun descendants :: "node \<Rightarrow> node list"
  and descendants_items :: "(string \<times> node) list \<Rightarrow> node list" where
  "descendants (Condition c) = []"
| "descendants (ConditionSet s cs) = descendants_items cs"
| "descendants_items [] = []"
| "descendants_items ((k, n) # cs) = n # descendants n @ descendants_items cs"

text \<open>
  The dictionaries that \<^verbatim>\<open>add_condition\<close> builds: every child is stored under its own
  id, and no key occurs twice.
\<close>

fun keyed_by_id :: "node \<Rightarrow> bool"
  and keyed_by_id_items :: "(string \<times> node) list \<Rightarrow> bool" where
  "keyed_by_id (Condition c) = True"
| "keyed_by_id (ConditionSet s cs) = keyed_by_id_items cs"
| "keyed_by_id_items [] = True"
| "keyed_by_id_items ((k, n) # cs) =
     (k = node_id n \<and> k \<notin> fst ` set cs \<and> keyed_by_id n \<and> keyed_by_id_items cs)"

text \<open>
  \<open>evaluated_as lib ga x y\<close>: the item \<open>y\<close> holds, under the key of \<open>x\<close>, the node that
  evaluating the node of \<open>x\<close> returns.
\<close>

definition evaluated_as :: "library \<Rightarrow> getattr_fn \<Rightarrow> string \<times> node \<Rightarrow> string \<times> node \<Rightarrow> bool" where
  "evaluated_as lib ga x y = (fst y = fst x \<and> evaluate lib ga (snd x) = Inr (snd y))"

subsection \<open>Sample trees\<close>

text \<open>
  The samples fix the pattern matcher to equality of pattern and string; none of them
  selects \<^verbatim>\<open>is_match\<close>.
\<close>

definition literal_match :: "string \<Rightarrow> string \<Rightarrow> bool" where
  "literal_match p s = (p = s)"

text \<open>\<^verbatim>\<open>Condition().when(x).is_greater(3)\<close>\<close>

definition greater_than_3 :: "string \<Rightarrow> int \<Rightarrow> node" where
  "greater_than_3 i x = Condition (is_greater (PInt 3) (when' (PInt x) (Condition_init i)))"

text \<open>A set under \<^verbatim>\<open>all\<close> with two conditions that hold.\<close>

definition inner_set :: node where
  "inner_set =
     add_condition (greater_than_3 ''c2'' 7)
       (add_condition (greater_than_3 ''c1'' 5) (ConditionSet_init ''inner''))"

text \<open>A set under \<^verbatim>\<open>any\<close> with \<open>inner_set\<close> and a condition that fails.\<close>

definition outer_set :: node where
  "outer_set =
     add_condition (greater_than_3 ''c3'' 1)
       (add_condition inner_set (when_any_condition_is_true (ConditionSet_init ''outer'')))"

text \<open>An object whose attribute \<open>x\<close> holds the name of its other attribute.\<close>

definition sample_target :: pyval where
  "sample_target = PObj ''Sample'' [(''x'', PStr ''y''), (''y'', PInt 5)]"

text \<open>The selectors of \<^verbatim>\<open>Condition\<close> that take no operand.\<close>

definition unary_selectors :: "(condition \<Rightarrow> condition) list" where
  "unary_selectors =
     [is_none, is_not_none, is_empty, is_not_empty, is_bool, is_integer, is_number, is_string]"

lemmas sample_defs =
  literal_match_def greater_than_3_def inner_set_def outer_set_def Condition_init_def
  ConditionSet_init_def is_greater_def when'_def

section \<open>Evaluation of a \<^verbatim>\<open>ConditionSet\<close>\<close>

lemma evaluate_node_id:
  "evaluate lib ga n = Inr m \<Longrightarrow> node_id m = node_id n"
  by (cases n) (auto simp: Condition_evaluate_def Let_def split: sum.splits)

lemma evaluate_is_valid_bool:
  "evaluate lib ga n = Inr m \<Longrightarrow> \<exists>r. node_is_valid m = PBool r"
  by (cases n) (auto simp: Condition_evaluate_def Let_def split: sum.splits)

lemma od_setitem_existing:
  "k \<notin> fst ` set ys \<Longrightarrow> od_setitem k v (ys @ (k, w) # xs) = ys @ (k, v) # xs"
  by (induction ys) auto

text \<open>
  While the comprehension runs over a dictionary keyed by id, each store replaces the value
  of the key it has just read: the items before it are evaluated already, the items after
  it are untouched.
\<close>

lemma evaluate_items_in_place:
  assumes "keyed_by_id_items xs"
    and "fst ` set ys \<inter> fst ` set xs = {}"
    and "evaluate_items lib ga xs (ys @ xs) = Inr d"
  shows "\<exists>xs1. d = ys @ xs1 \<and> list_all2 (evaluated_as lib ga) xs xs1"
  using assms
proof (induction xs arbitrary: ys)
  case Nil
  then show ?case by simp
next
  case (Cons x xs)
  obtain k n where x: "x = (k, n)" by (cases x)
  from Cons.prems(1) x have k: "k = node_id n" and fresh: "k \<notin> fst ` set xs"
    and rest: "keyed_by_id_items xs" by auto
  from Cons.prems(3) x obtain m where m: "evaluate lib ga n = Inr m"
    and run: "evaluate_items lib ga xs (od_setitem (node_id m) m (ys @ (k, n) # xs)) = Inr d"
    by (auto split: sum.splits)
  from m k have idm: "node_id m = k" by (simp add: evaluate_node_id)
  from Cons.prems(2) x have kys: "k \<notin> fst ` set ys" by auto
  have "od_setitem (node_id m) m (ys @ (k, n) # xs) = (ys @ [(k, m)]) @ xs"
    using kys idm by (simp add: od_setitem_existing)
  with run have run': "evaluate_items lib ga xs ((ys @ [(k, m)]) @ xs) = Inr d" by simp
  have disj: "fst ` set (ys @ [(k, m)]) \<inter> fst ` set xs = {}"
    using Cons.prems(2) x fresh by auto
  from Cons.IH [OF rest disj run'] obtain xs1 where
    d: "d = (ys @ [(k, m)]) @ xs1" and all2: "list_all2 (evaluated_as lib ga) xs xs1" by blast
  have "d = ys @ ((k, m) # xs1)" using d by simp
  moreover have "list_all2 (evaluated_as lib ga) (x # xs) ((k, m) # xs1)"
    using all2 m x by (simp add: evaluated_as_def)
  ultimately show ?case by blast
qed

lemma evaluate_set_children:
  assumes "keyed_by_id (ConditionSet s cs)"
    and "evaluate lib ga (ConditionSet s cs) = Inr n1"
  shows "list_all2 (evaluated_as lib ga) cs (conditions n1)"
    and "n1 = ConditionSet (s\<lparr>is_valid := PBool (aggregate (logical s)
              (map (\<lambda>(k, n). node_is_valid n) (conditions n1)))\<rparr>) (conditions n1)"
proof -
  from assms(2) obtain d where d: "evaluate_items lib ga cs cs = Inr d"
    and n1: "n1 = ConditionSet (s\<lparr>is_valid := PBool (aggregate (logical s)
              (map (\<lambda>(k, n). node_is_valid n) d))\<rparr>) d"
    by (auto split: sum.splits)
  from assms(1) have "keyed_by_id_items cs" by simp
  from evaluate_items_in_place [of cs "[]" lib ga d, OF this] d
  have "list_all2 (evaluated_as lib ga) cs d" by simp
  with n1 show "list_all2 (evaluated_as lib ga) cs (conditions n1)" by simp
  from n1 show "n1 = ConditionSet (s\<lparr>is_valid := PBool (aggregate (logical s)
              (map (\<lambda>(k, n). node_is_valid n) (conditions n1)))\<rparr>) (conditions n1)" by simp
qed

lemma evaluated_as_keys:
  "list_all2 (evaluated_as lib ga) xs ys \<Longrightarrow> map fst ys = map fst xs"
  by (induction xs ys rule: list_all2_induct) (auto simp: evaluated_as_def)

lemma evaluated_as_ids:
  "list_all2 (evaluated_as lib ga) xs ys \<Longrightarrow>
     map (\<lambda>x. node_id (snd x)) ys = map (\<lambda>x. node_id (snd x)) xs"
  by (induction xs ys rule: list_all2_induct) (auto simp: evaluated_as_def evaluate_node_id)

text \<open>
  C1. After \<^verbatim>\<open>evaluate\<close> on a set whose dictionary is keyed by id, every child is the
  result of evaluating the child stored before under the same key, every child's state is
  a boolean, and the state of the set is the conjunction of the children's states under
  \<^verbatim>\<open>all\<close>, their disjunction under \<^verbatim>\<open>any\<close>, and the negation of the disjunction under
  \<^verbatim>\<open>none\<close>; a set with no children gets true, false and true.
\<close>

theorem evaluate_set_aggregates:
  assumes "keyed_by_id (ConditionSet s cs)"
    and "evaluate lib ga (ConditionSet s cs) = Inr n1"
  shows "list_all2 (evaluated_as lib ga) cs (conditions n1)
    \<and> (\<forall>x \<in> set (conditions n1). \<exists>r. node_is_valid (snd x) = PBool r)
    \<and> (logical s = ''all'' \<longrightarrow>
          node_is_valid n1 = PBool (\<forall>x \<in> set (conditions n1). node_is_valid (snd x) = PBool True))
    \<and> (logical s = ''any'' \<longrightarrow>
          node_is_valid n1 = PBool (\<exists>x \<in> set (conditions n1). node_is_valid (snd x) = PBool True))
    \<and> (logical s = ''none'' \<longrightarrow>
          node_is_valid n1 = PBool (\<not> (\<exists>x \<in> set (conditions n1). node_is_valid (snd x) = PBool True)))
    \<and> (cs = [] \<longrightarrow> conditions n1 = [])"
proof -
  let ?d = "conditions n1"
  let ?vs = "map (\<lambda>(k, n). node_is_valid n) ?d"
  note ch = evaluate_set_children [OF assms]
  have bools: "\<forall>x \<in> set ?d. \<exists>r. node_is_valid (snd x) = PBool r"
  proof
    fix x assume "x \<in> set ?d"
    then obtain i where i: "i < length ?d" and x: "x = ?d ! i" by (auto simp: in_set_conv_nth)
    from ch(1) i have "evaluated_as lib ga (cs ! i) (?d ! i)"
      by (simp add: list_all2_conv_all_nth)
    then show "\<exists>r. node_is_valid (snd x) = PBool r"
      using x evaluate_is_valid_bool by (auto simp: evaluated_as_def)
  qed
  have truthy_eq: "truthy (node_is_valid (snd x)) = (node_is_valid (snd x) = PBool True)"
    if "x \<in> set ?d" for x
    using bools that by fastforce
  have all_eq: "list_all truthy ?vs = (\<forall>x \<in> set ?d. node_is_valid (snd x) = PBool True)"
    using truthy_eq by (simp add: list_all_iff split_beta)
  have ex_eq: "list_ex truthy ?vs = (\<exists>x \<in> set ?d. node_is_valid (snd x) = PBool True)"
    using truthy_eq by (simp add: list_ex_iff split_beta)
  have valid: "node_is_valid n1 = PBool (aggregate (logical s) ?vs)"
    by (subst ch(2)) simp
  have empty: "cs = [] \<longrightarrow> ?d = []"
    using ch(1) by auto
  show ?thesis
    using ch(1) bools valid all_eq ex_eq empty by (simp add: aggregate_def)
qed

theorem evaluate_set_aggregates_witness:
  "keyed_by_id outer_set
   \<and> (case evaluate (utils literal_match) table_getattr outer_set of
        Inl e \<Rightarrow> False
      | Inr n1 \<Rightarrow> node_is_valid n1 = PBool True
          \<and> map (\<lambda>x. node_is_valid (snd x)) (conditions n1) = [PBool True, PBool False])"
proof -
  let ?lib = "utils literal_match"
  obtain s cs where sc: "outer_set = ConditionSet s cs" and lg: "logical s = ''any''"
    by (simp add: sample_defs)
  have k: "keyed_by_id outer_set" by code_simp
  have "case evaluate ?lib table_getattr outer_set of Inl e \<Rightarrow> False
        | Inr n1 \<Rightarrow> map (\<lambda>x. node_is_valid (snd x)) (conditions n1) = [PBool True, PBool False]"
    by code_simp
  then obtain n1 where e: "evaluate ?lib table_getattr outer_set = Inr n1"
    and vs: "map (\<lambda>x. node_is_valid (snd x)) (conditions n1) = [PBool True, PBool False]"
    by (cases "evaluate ?lib table_getattr outer_set") auto
  from evaluate_set_aggregates [of s cs ?lib table_getattr n1] k e lg sc
  have "node_is_valid n1 = PBool (\<exists>x \<in> set (conditions n1). node_is_valid (snd x) = PBool True)"
    by simp
  moreover have "PBool True \<in> set (map (\<lambda>x. node_is_valid (snd x)) (conditions n1))"
    using vs by simp
  then have "\<exists>x \<in> set (conditions n1). node_is_valid (snd x) = PBool True"
    by force
  ultimately have "node_is_valid n1 = PBool True" by simp
  with k e vs show ?thesis by simp
qed

text \<open>
  C10. \<^verbatim>\<open>evaluate\<close> on a node whose dictionary is keyed by id leaves the keys of the
  dictionary and the ids of the children as they were, in the same order.
\<close>

theorem evaluate_keeps_keys:
  assumes "keyed_by_id n"
    and "evaluate lib ga n = Inr n1"
  shows "map fst (conditions n1) = map fst (conditions n)
    \<and> map (\<lambda>x. node_id (snd x)) (conditions n1) = map (\<lambda>x. node_id (snd x)) (conditions n)"
proof (cases n)
  case (Condition c)
  with assms(2) show ?thesis by (auto split: sum.splits)
next
  case (ConditionSet s cs)
  with assms have "list_all2 (evaluated_as lib ga) cs (conditions n1)"
    using evaluate_set_children(1) by blast
  then have "map fst (conditions n1) = map fst cs
    \<and> map (\<lambda>x. node_id (snd x)) (conditions n1) = map (\<lambda>x. node_id (snd x)) cs"
    by (simp add: evaluated_as_keys evaluated_as_ids)
  with ConditionSet show ?thesis by simp
qed

theorem evaluate_keeps_keys_witness:
  "keyed_by_id outer_set
   \<and> (case evaluate (utils literal_match) table_getattr outer_set of
        Inl e \<Rightarrow> False
      | Inr n1 \<Rightarrow> map fst (conditions n1) = [''inner'', ''c3'']
          \<and> map fst (conditions outer_set) = [''inner'', ''c3''])"
proof -
  have k: "keyed_by_id outer_set" by code_simp
  have "case evaluate (utils literal_match) table_getattr outer_set of Inl e \<Rightarrow> False
        | Inr n1 \<Rightarrow> True"
    by code_simp
  then obtain n1 where e: "evaluate (utils literal_match) table_getattr outer_set = Inr n1"
    by (cases "evaluate (utils literal_match) table_getattr outer_set") auto
  have "map fst (conditions outer_set) = [''inner'', ''c3'']" by code_simp
  with evaluate_keeps_keys [OF k e] k e show ?thesis by simp
qed

section \<open>Evaluation of a \<^verbatim>\<open>Condition\<close>\<close>

text \<open>What \<^verbatim>\<open>Condition.evaluate\<close> does once a predicate has been selected.\<close>

lemma Condition_evaluate_configured:
  "eval_function c = Some f \<Longrightarrow>
   Condition_evaluate lib ga c =
     (case lib f [get_value ga (evaluated_instance c) (a' c),
                  get_value ga (evaluated_instance c) (b' c)] of
        Inl e \<Rightarrow> Inl e
      | Inr r \<Rightarrow> Inr (c\<lparr>a' := get_value ga (evaluated_instance c) (a' c),
                        b' := get_value ga (evaluated_instance c) (b' c),
                        is_valid := PBool r\<rparr>))"
  by (simp add: Condition_evaluate_def call_eval_function_def Let_def split: sum.splits)

text \<open>
  C2, as the code has it. \<^verbatim>\<open>evaluate\<close> on a \<^verbatim>\<open>Condition\<close> with no predicate selected
  raises the \<^verbatim>\<open>TypeError\<close> of Python for calling \<^verbatim>\<open>None\<close>; the module has no error of its
  own for a condition that is not configured.
\<close>

theorem evaluate_unconfigured:
  "eval_function c = None \<Longrightarrow> evaluate lib ga (Condition c) = Inl not_callable"
  by (simp add: Condition_evaluate_def call_eval_function_def Let_def)

theorem evaluate_unconfigured_witness:
  "eval_function (Condition_init ''c1'') = None
   \<and> evaluate (utils literal_match) table_getattr (Condition (Condition_init ''c1'')) = Inl not_callable"
proof -
  have h: "eval_function (Condition_init ''c1'') = None" by (simp add: Condition_init_def)
  from evaluate_unconfigured [OF h] h show ?thesis by simp
qed

text \<open>
  C2, as stated, fails: the error of a fresh \<^verbatim>\<open>Condition\<close> is the generic
  \<^verbatim>\<open>TypeError: 'NoneType' object is not callable\<close>.
\<close>

theorem evaluate_unconfigured_counterexample:
  "evaluate (utils literal_match) table_getattr (Condition (Condition_init ''c1''))
     = Inl (TypeError (quoted ''NoneType'' @ '' object is not callable''))"
  by code_simp

text \<open>
  C3, as the code has it. \<^verbatim>\<open>on\<close> binds the instance and leaves the operand \<^verbatim>\<open>_a\<close> alone;
  \<^verbatim>\<open>when\<close> sets it. After \<^verbatim>\<open>on(5)\<close>, \<^verbatim>\<open>when(5)\<close>, \<^verbatim>\<open>is_greater(3)\<close> a fresh condition
  evaluates to true; after \<^verbatim>\<open>on(5)\<close>, \<^verbatim>\<open>is_greater(3)\<close> alone the predicate of any library
  is called on \<^verbatim>\<open>(None, 3)\<close>.
\<close>

theorem when_is_greater:
  "evaluate (utils re_match) ga
     (Condition (is_greater (PInt 3) (when' (PInt 5) (BaseCondition_on (PInt 5) (Condition_init i)))))
   = Inr (Condition ((is_greater (PInt 3) (when' (PInt 5) (BaseCondition_on (PInt 5) (Condition_init i))))
            \<lparr>is_valid := PBool True\<rparr>))
   \<and> evaluate lib ga (Condition (is_greater (PInt 3) (BaseCondition_on (PInt 5) (Condition_init i))))
   = (case lib utils_is_greater [PNone, PInt 3] of
        Inl e \<Rightarrow> Inl e
      | Inr r \<Rightarrow> Inr (Condition ((is_greater (PInt 3) (BaseCondition_on (PInt 5) (Condition_init i)))
            \<lparr>is_valid := PBool r\<rparr>)))"
proof -
  let ?c = "is_greater (PInt 3) (when' (PInt 5) (BaseCondition_on (PInt 5) (Condition_init i)))"
  let ?d = "is_greater (PInt 3) (BaseCondition_on (PInt 5) (Condition_init i))"
  have fc: "eval_function ?c = Some utils_is_greater" and ac: "a' ?c = PInt 5" and bc: "b' ?c = PInt 3"
    by (simp_all add: is_greater_def when'_def)
  have fd: "eval_function ?d = Some utils_is_greater" and ad: "a' ?d = PNone" and bd: "b' ?d = PInt 3"
    by (simp_all add: is_greater_def BaseCondition_on_def Condition_init_def)
  have 1: "Condition_evaluate (utils re_match) ga ?c = Inr (?c\<lparr>is_valid := PBool True\<rparr>)"
    by (simp add: Condition_evaluate_configured [OF fc] ac bc get_value_def is_unary_def)
  have 2: "Condition_evaluate lib ga ?d =
     (case lib utils_is_greater [PNone, PInt 3] of Inl e \<Rightarrow> Inl e
      | Inr r \<Rightarrow> Inr (?d\<lparr>is_valid := PBool r\<rparr>))"
    by (simp add: Condition_evaluate_configured [OF fd] ad bd get_value_def split: sum.splits)
  show ?thesis
    by (simp add: 1 2 split: sum.splits)
qed

text \<open>
  C3, as stated, fails: with \<^verbatim>\<open>on(5)\<close> and \<^verbatim>\<open>is_greater(3)\<close> alone the comparison of
  \<^verbatim>\<open>None\<close> with \<^verbatim>\<open>3\<close> raises.
\<close>

theorem on_is_greater_counterexample:
  "evaluate (utils literal_match) table_getattr
     (Condition (is_greater (PInt 3) (BaseCondition_on (PInt 5) (Condition_init ''c1''))))
   = Inl (not_supported ''>'' PNone (PInt 3))"
  by code_simp

section \<open>Propagation of the target instance and of the attribute\<close>

lemma on_items_descendants:
  "node_evaluated_instance (on x n) = x \<and> node_id (on x n) = node_id n
     \<and> map node_id (descendants (on x n)) = map node_id (descendants n)
     \<and> map node_evaluated_instance (descendants (on x n)) = map (\<lambda>d. x) (descendants n)"
  "map node_id (descendants_items (on_items x cs)) = map node_id (descendants_items cs)
     \<and> map node_evaluated_instance (descendants_items (on_items x cs))
         = map (\<lambda>d. x) (descendants_items cs)"
  by (induction x n and x cs rule: on_on_items.induct) (simp_all add: BaseCondition_on_def)

text \<open>
  C4. \<^verbatim>\<open>on(x)\<close> keeps the nodes below a node, at any depth, the same nodes in the same order
  (each keeps its id), and afterwards the node itself and every one of them have \<open>x\<close> as their
  instance.
\<close>

theorem on_reaches_descendants:
  "node_evaluated_instance (on x n) = x
     \<and> map node_id (descendants (on x n)) = map node_id (descendants n)
     \<and> map node_evaluated_instance (descendants (on x n)) = map (\<lambda>d. x) (descendants n)
     \<and> (\<forall>d \<in> set (descendants (on x n)). node_evaluated_instance d = x)"
proof -
  have m: "map node_evaluated_instance (descendants (on x n)) = map (\<lambda>d. x) (descendants n)"
    using on_items_descendants(1) [of x n] by simp
  have "\<forall>d \<in> set (descendants (on x n)). node_evaluated_instance d = x"
  proof
    fix d assume "d \<in> set (descendants (on x n))"
    then have "node_evaluated_instance d \<in> set (map node_evaluated_instance (descendants (on x n)))"
      by simp
    then show "node_evaluated_instance d = x" unfolding m by auto
  qed
  with on_items_descendants(1) [of x n] show ?thesis by simp
qed

text \<open>
  On the nested set, whose four descendants start with no instance, \<^verbatim>\<open>on(5)\<close> leaves the four
  ids in place and gives each of the four nodes the instance 5.
\<close>

theorem on_reaches_descendants_witness:
  "map node_id (descendants outer_set) = [''inner'', ''c1'', ''c2'', ''c3'']
   \<and> map node_evaluated_instance (descendants outer_set) = [PNone, PNone, PNone, PNone]
   \<and> map node_id (descendants (on (PInt 5) outer_set)) = [''inner'', ''c1'', ''c2'', ''c3'']
   \<and> map node_evaluated_instance (descendants (on (PInt 5) outer_set))
       = [PInt 5, PInt 5, PInt 5, PInt 5]"
proof -
  have ids: "map node_id (descendants outer_set) = [''inner'', ''c1'', ''c2'', ''c3'']"
    by code_simp
  have old: "map node_evaluated_instance (descendants outer_set) = [PNone, PNone, PNone, PNone]"
    by code_simp
  have new: "map (\<lambda>d. PInt 5) (descendants outer_set) = [PInt 5, PInt 5, PInt 5, PInt 5]"
    by code_simp
  from on_reaches_descendants [of "PInt 5" outer_set] ids old new show ?thesis by simp
qed

lemma BaseCondition_attribute_fst:
  "evaluated_attribute (fst (BaseCondition_attribute ga v r))
     = (if hasattr ga (evaluated_instance r) v then Some v else evaluated_attribute r)"
  "evaluated_instance (fst (BaseCondition_attribute ga v r)) = evaluated_instance r"
  by (simp_all add: BaseCondition_attribute_def)

lemma attribute_items_descendants:
  "map node_evaluated_attribute (descendants (fst (attribute ga v n)))
     = map (\<lambda>d. if hasattr ga (node_evaluated_instance d) v then Some v
                 else node_evaluated_attribute d) (descendants n)
   \<and> node_evaluated_attribute (fst (attribute ga v n))
     = (if hasattr ga (node_evaluated_instance n) v then Some v else node_evaluated_attribute n)"
  "map node_evaluated_attribute (descendants_items (fst (attribute_items ga v cs)))
     = map (\<lambda>d. if hasattr ga (node_evaluated_instance d) v then Some v
                 else node_evaluated_attribute d) (descendants_items cs)"
proof (induction ga v n and ga v cs rule: attribute_attribute_items.induct)
  case (1 ga v c)
  show ?case
    using BaseCondition_attribute_fst [of ga v c]
    by (simp add: split_beta)
next
  case (2 ga v s cs)
  obtain s1 out where b: "BaseCondition_attribute ga v s = (s1, out)"
    by (cases "BaseCondition_attribute ga v s")
  note ih = "2.IH" [OF b [symmetric]]
  show ?case
    using ih b BaseCondition_attribute_fst [of ga v s]
    by (simp add: split_beta)
next
  case (3 ga v)
  show ?case by simp
next
  case (4 ga v k n cs)
  obtain n1 out where a: "attribute ga v n = (n1, out)"
    by (cases "attribute ga v n")
  note ih1 = "4.IH"(1)
  note ih2 = "4.IH"(2) [OF a [symmetric]]
  show ?case
    using ih1 ih2 a by (simp add: split_beta)
qed

text \<open>
  C5, as the code has it. \<^verbatim>\<open>attribute(name)\<close> on a set stores the name in a node below it
  exactly when the instance bound to that node has an attribute of that name; a node whose
  instance lacks it keeps the attribute it had.
\<close>

theorem attribute_stored_where_present:
  "map node_evaluated_attribute (descendants (fst (attribute ga v n)))
     = map (\<lambda>d. if hasattr ga (node_evaluated_instance d) v then Some v
                 else node_evaluated_attribute d) (descendants n)"
  using attribute_items_descendants(1) by blast

theorem attribute_stored_where_present_witness:
  "map node_evaluated_attribute
     (descendants (fst (attribute table_getattr ''y'' (on sample_target outer_set))))
   = [Some ''y'', Some ''y'', Some ''y'', Some ''y'']"
proof -
  have "map (\<lambda>d. if hasattr table_getattr (node_evaluated_instance d) ''y'' then Some ''y''
                 else node_evaluated_attribute d) (descendants (on sample_target outer_set))
        = [Some ''y'', Some ''y'', Some ''y'', Some ''y'']"
    by code_simp
  with attribute_stored_where_present [of table_getattr "''y''" "on sample_target outer_set"]
  show ?thesis by simp
qed

text \<open>
  C5, as stated, fails: a child that has stored \<^verbatim>\<open>y\<close> keeps it when the set is given \<^verbatim>\<open>x\<close>,
  which the bound instance does not have.
\<close>

theorem attribute_overwrite_counterexample:
  "map node_evaluated_attribute
     (descendants (fst (attribute table_getattr ''x''
        (fst (attribute table_getattr ''y''
           (on (PObj ''Other'' [(''y'', PInt 5)])
              (add_condition (Condition (Condition_init ''c1'')) (ConditionSet_init ''s1''))))))))
   = [Some ''y'']"
  by code_simp

section \<open>Operand resolution\<close>

text \<open>
  C6. A string operand that names no attribute of the bound instance resolves to the string
  itself: \<open>get_value\<close> returns it, and it is what \<^verbatim>\<open>evaluate\<close> stores back, in either operand,
  whenever the call of the predicate returns.
\<close>

theorem get_value_fallback:
  assumes "ga (evaluated_instance c) name = None"
  shows "get_value ga (evaluated_instance c) (PStr name) = PStr name
    \<and> (a' c = PStr name \<longrightarrow> (\<forall>c1. Condition_evaluate lib ga c = Inr c1 \<longrightarrow> a' c1 = PStr name))
    \<and> (b' c = PStr name \<longrightarrow> (\<forall>c1. Condition_evaluate lib ga c = Inr c1 \<longrightarrow> b' c1 = PStr name))"
  using assms
  by (auto simp: get_value_def Condition_evaluate_def Let_def split: sum.splits)

theorem get_value_fallback_witness:
  "table_getattr sample_target ''z'' = None
   \<and> get_value table_getattr sample_target (PStr ''z'') = PStr ''z''"
proof -
  let ?c = "BaseCondition_on sample_target (Condition_init ''c1'')"
  have i: "evaluated_instance ?c = sample_target" by (simp add: BaseCondition_on_def)
  have h: "table_getattr sample_target ''z'' = None" by code_simp
  from get_value_fallback [of table_getattr ?c "''z''"] h i show ?thesis by simp
qed

text \<open>
  C7, as the code has it. \<^verbatim>\<open>evaluate\<close> stores the resolved operands, so the second call
  resolves what the first one stored. When the first call returns and both stored operands
  resolve to themselves, the second call returns the same condition, with the same state.
\<close>

theorem evaluate_twice:
  assumes "Condition_evaluate lib ga c = Inr c1"
    and "get_value ga (evaluated_instance c) (a' c1) = a' c1"
    and "get_value ga (evaluated_instance c) (b' c1) = b' c1"
  shows "Condition_evaluate lib ga c1 = Inr c1"
  using assms
  by (auto simp: Condition_evaluate_def call_eval_function_def Let_def
      split: sum.splits option.splits)

theorem evaluate_twice_witness:
  "(case Condition_evaluate (utils literal_match) table_getattr
           (is_greater (PInt 3) (when' (PInt 5) (Condition_init ''c1''))) of
      Inl e \<Rightarrow> False
    | Inr c1 \<Rightarrow> is_valid c1 = PBool True
        \<and> Condition_evaluate (utils literal_match) table_getattr c1 = Inr c1)"
proof -
  let ?c = "is_greater (PInt 3) (when' (PInt 5) (Condition_init ''c1''))"
  let ?L = "utils literal_match"
  have "case Condition_evaluate ?L table_getattr ?c of Inl e \<Rightarrow> False
        | Inr c1 \<Rightarrow> is_valid c1 = PBool True \<and> a' c1 = PInt 5 \<and> b' c1 = PInt 3"
    by code_simp
  then obtain c1 where e: "Condition_evaluate ?L table_getattr ?c = Inr c1"
    and v: "is_valid c1 = PBool True" and a: "a' c1 = PInt 5" and b: "b' c1 = PInt 3"
    by (cases "Condition_evaluate ?L table_getattr ?c") auto
  have ga: "get_value table_getattr (evaluated_instance ?c) (a' c1) = a' c1"
    by (simp add: a get_value_def)
  have gb: "get_value table_getattr (evaluated_instance ?c) (b' c1) = b' c1"
    by (simp add: b get_value_def)
  from evaluate_twice [OF e ga gb] e v show ?thesis by simp
qed

text \<open>
  C7, as stated, fails: with \<^verbatim>\<open>x\<close> holding the string \<^verbatim>\<open>y\<close> and \<^verbatim>\<open>y\<close> holding 5, the
  condition \<^verbatim>\<open>when('x').is_equal(5)\<close> is false at the first call, which stores \<^verbatim>\<open>'y'\<close>, and
  true at the second, which resolves \<^verbatim>\<open>'y'\<close> to 5.
\<close>

theorem evaluate_twice_counterexample:
  "(case Condition_evaluate (utils literal_match) table_getattr
           (is_equal (PInt 5) (when' (PStr ''x'')
              (BaseCondition_on sample_target (Condition_init ''c1'')))) of
      Inl e \<Rightarrow> False
    | Inr c1 \<Rightarrow> is_valid c1 = PBool False
        \<and> (case Condition_evaluate (utils literal_match) table_getattr c1 of
             Inl e \<Rightarrow> False
           | Inr c2 \<Rightarrow> is_valid c2 = PBool True))"
  by code_simp

section \<open>The operands of a \<^verbatim>\<open>Condition\<close>\<close>

text \<open>
  C9. When \<^verbatim>\<open>Condition.evaluate\<close> returns, \<^verbatim>\<open>_a\<close> and \<^verbatim>\<open>_b\<close> hold the values that
  \<^verbatim>\<open>_get_value\<close> resolved, not what the caller supplied; an evaluation after the condition
  is bound to another target \<open>y\<close> resolves from these stored values.
\<close>

theorem evaluate_stores_resolved:
  assumes "Condition_evaluate lib ga c = Inr c1"
  shows "a' c1 = get_value ga (evaluated_instance c) (a' c)
    \<and> b' c1 = get_value ga (evaluated_instance c) (b' c)
    \<and> (\<forall>c2. Condition_evaluate lib ga (BaseCondition_on y c1) = Inr c2 \<longrightarrow>
          a' c2 = get_value ga y (get_value ga (evaluated_instance c) (a' c))
        \<and> b' c2 = get_value ga y (get_value ga (evaluated_instance c) (b' c)))"
  using assms
  by (auto simp: Condition_evaluate_def Let_def BaseCondition_on_def split: sum.splits)

text \<open>
  The condition \<^verbatim>\<open>when('y').is_greater(3)\<close> on a target whose \<^verbatim>\<open>y\<close> is 5 stores 5; bound
  to a target whose \<^verbatim>\<open>y\<close> is 1 it still compares 5 with 3.
\<close>

theorem evaluate_stores_resolved_witness:
  "(case Condition_evaluate (utils literal_match) table_getattr
           (is_greater (PInt 3) (when' (PStr ''y'')
              (BaseCondition_on sample_target (Condition_init ''c1'')))) of
      Inl e \<Rightarrow> False
    | Inr c1 \<Rightarrow> a' c1 = PInt 5
        \<and> (case Condition_evaluate (utils literal_match) table_getattr
                   (BaseCondition_on (PObj ''Sample'' [(''y'', PInt 1)]) c1) of
             Inl e \<Rightarrow> False
           | Inr c2 \<Rightarrow> a' c2 = PInt 5 \<and> is_valid c2 = PBool True))"
proof -
  let ?L = "utils literal_match"
  let ?c = "is_greater (PInt 3) (when' (PStr ''y'')
              (BaseCondition_on sample_target (Condition_init ''c1'')))"
  let ?t = "PObj ''Sample'' [(''y'', PInt 1)]"
  have run: "case Condition_evaluate ?L table_getattr ?c of Inl e \<Rightarrow> False
        | Inr c1 \<Rightarrow> (case Condition_evaluate ?L table_getattr (BaseCondition_on ?t c1) of
             Inl e \<Rightarrow> False | Inr c2 \<Rightarrow> is_valid c2 = PBool True)"
    by code_simp
  then obtain c1 where e1: "Condition_evaluate ?L table_getattr ?c = Inr c1"
    by (cases "Condition_evaluate ?L table_getattr ?c") auto
  with run obtain c2 where
    e2: "Condition_evaluate ?L table_getattr (BaseCondition_on ?t c1) = Inr c2"
    and v: "is_valid c2 = PBool True"
    by (cases "Condition_evaluate ?L table_getattr (BaseCondition_on ?t c1)") auto
  have r: "get_value table_getattr (evaluated_instance ?c) (a' ?c) = PInt 5"
    by code_simp
  have r2: "get_value table_getattr ?t (PInt 5) = PInt 5"
    by (simp add: get_value_def)
  from evaluate_stores_resolved [OF e1, of ?t] e2 r r2
  have "a' c1 = PInt 5 \<and> a' c2 = PInt 5" by simp
  with e1 e2 v show ?thesis by simp
qed

section \<open>Unary predicates\<close>

text \<open>Each unary selector stores one unary function of the library and nothing else.\<close>

lemma unary_selectors_cases:
  assumes "sel \<in> set unary_selectors"
  shows "\<exists>f. is_unary f \<and> (\<forall>c. sel c = c\<lparr>eval_function := Some f\<rparr>)"
proof -
  from assms consider "sel = is_none" | "sel = is_not_none" | "sel = is_empty"
    | "sel = is_not_empty" | "sel = is_bool" | "sel = is_integer" | "sel = is_number"
    | "sel = is_string"
    unfolding unary_selectors_def by auto
  then show ?thesis
  proof cases
    case 1
    have "is_unary utils_is_none" by (simp add: is_unary_def)
    with 1 show ?thesis by (auto simp: is_none_def)
  next
    case 2
    have "is_unary utils_is_not_none" by (simp add: is_unary_def)
    with 2 show ?thesis by (auto simp: is_not_none_def)
  next
    case 3
    have "is_unary utils_is_empty" by (simp add: is_unary_def)
    with 3 show ?thesis by (auto simp: is_empty_def)
  next
    case 4
    have "is_unary utils_is_not_empty" by (simp add: is_unary_def)
    with 4 show ?thesis by (auto simp: is_not_empty_def)
  next
    case 5
    have "is_unary utils_is_bool" by (simp add: is_unary_def)
    with 5 show ?thesis by (auto simp: is_bool_def)
  next
    case 6
    have "is_unary utils_is_integer" by (simp add: is_unary_def)
    with 6 show ?thesis by (auto simp: is_integer_def)
  next
    case 7
    have "is_unary utils_is_number" by (simp add: is_unary_def)
    with 7 show ?thesis by (auto simp: is_number_def)
  next
    case 8
    have "is_unary utils_is_string" by (simp add: is_unary_def)
    with 8 show ?thesis by (auto simp: is_string_def)
  qed
qed

text \<open>
  C8, as the code has it. For a \<^verbatim>\<open>Condition\<close> configured with a unary selector,
  \<^verbatim>\<open>evaluate\<close> calls the selected function with two positional arguments, the resolved
  first operand and the resolved second operand, as it does for a binary selector.
\<close>

theorem unary_selector_call:
  assumes "sel \<in> set unary_selectors"
  shows "\<exists>f. is_unary f \<and> eval_function (sel c) = Some f
    \<and> Condition_evaluate lib ga (sel c) =
        (case lib f [get_value ga (evaluated_instance c) (a' c),
                     get_value ga (evaluated_instance c) (b' c)] of
           Inl e \<Rightarrow> Inl e
         | Inr r \<Rightarrow> Inr (c\<lparr>a' := get_value ga (evaluated_instance c) (a' c),
                           b' := get_value ga (evaluated_instance c) (b' c),
                           eval_function := Some f,
                           is_valid := PBool r\<rparr>))"
proof -
  from unary_selectors_cases [OF assms]
  obtain f where u: "is_unary f" and s: "sel c = c\<lparr>eval_function := Some f\<rparr>" by blast
  have fs: "eval_function (sel c) = Some f" by (simp add: s)
  have "Condition_evaluate lib ga (sel c) =
        (case lib f [get_value ga (evaluated_instance c) (a' c),
                     get_value ga (evaluated_instance c) (b' c)] of
           Inl e \<Rightarrow> Inl e
         | Inr r \<Rightarrow> Inr (c\<lparr>a' := get_value ga (evaluated_instance c) (a' c),
                           b' := get_value ga (evaluated_instance c) (b' c),
                           eval_function := Some f,
                           is_valid := PBool r\<rparr>))"
    unfolding s
    by (simp add: Condition_evaluate_def call_eval_function_def Let_def split: sum.splits)
  with u fs show ?thesis by blast
qed

text \<open>
  For \<^verbatim>\<open>when('').is_empty\<close> the call is \<^verbatim>\<open>is_empty('', None)\<close>, which a function of one
  parameter rejects.
\<close>

theorem unary_selector_call_witness:
  "is_empty \<in> set unary_selectors
   \<and> Condition_evaluate (utils literal_match) table_getattr
       (is_empty (when' (PStr []) (Condition_init ''c1'')))
     = (case utils literal_match utils_is_empty [PStr [], PNone] of
          Inl e \<Rightarrow> Inl e
        | Inr r \<Rightarrow> Inr ((is_empty (when' (PStr []) (Condition_init ''c1'')))
                         \<lparr>is_valid := PBool r\<rparr>))"
proof -
  let ?c = "when' (PStr []) (Condition_init ''c1'')"
  have m: "is_empty \<in> set unary_selectors" by (simp add: unary_selectors_def)
  have e: "eval_function (is_empty ?c) = Some utils_is_empty" by (simp add: is_empty_def)
  have a: "get_value table_getattr (evaluated_instance ?c) (a' ?c) = PStr []"
    by code_simp
  have b: "get_value table_getattr (evaluated_instance ?c) (b' ?c) = PNone"
    by code_simp
  from unary_selector_call [OF m, of ?c "utils literal_match" table_getattr]
  obtain f where f: "eval_function (is_empty ?c) = Some f"
    and r: "Condition_evaluate (utils literal_match) table_getattr (is_empty ?c) =
        (case utils literal_match f [get_value table_getattr (evaluated_instance ?c) (a' ?c),
                     get_value table_getattr (evaluated_instance ?c) (b' ?c)] of
           Inl e \<Rightarrow> Inl e
         | Inr r \<Rightarrow> Inr (?c\<lparr>a' := get_value table_getattr (evaluated_instance ?c) (a' ?c),
                           b' := get_value table_getattr (evaluated_instance ?c) (b' ?c),
                           eval_function := Some f,
                           is_valid := PBool r\<rparr>))"
    by blast
  from f e have fe: "f = utils_is_empty" by simp
  have l: "utils literal_match utils_is_empty [PStr [], PNone]
     = Inl (TypeError ''is_empty() takes 1 positional argument but 2 were given'')"
    by code_simp
  from r have "Condition_evaluate (utils literal_match) table_getattr (is_empty ?c)
     = Inl (TypeError ''is_empty() takes 1 positional argument but 2 were given'')"
    unfolding fe a b l by simp
  with m l show ?thesis by simp
qed

text \<open>
  C8, as stated, fails: \<^verbatim>\<open>is_empty\<close> holds of the empty string when called with that one
  argument, while \<^verbatim>\<open>evaluate\<close> on \<^verbatim>\<open>when('').is_empty\<close> raises \<^verbatim>\<open>TypeError\<close> for the
  second argument it passes.
\<close>

theorem unary_selector_call_counterexample:
  "Condition_evaluate (utils literal_match) table_getattr
     (is_empty (when' (PStr []) (Condition_init ''c1'')))
     = Inl (TypeError ''is_empty() takes 1 positional argument but 2 were given'')
   \<and> utils literal_match utils_is_empty [PStr []] = Inr True"
  by code_simp

end
